theory Spec2Isabelle
  imports Main "HOL-Library.Word"
begin

unbundle bit_operations_syntax

section \<open>The waveform generator and the NEC protocol (utils/ir\_sender.py)\<close>

text \<open>
  Python integers are unbounded, so durations, masks and frame entries are \<open>int\<close>.
  An IR code is a Python \<open>str\<close>; iterating over it yields its characters, so it is a
  \<open>string\<close> here. Objects are records that are passed through every method that
  mutates them and returned updated.
\<close>

record WaveGenerator =
  raw_codes :: "int list"

definition WaveGenerator_init :: WaveGenerator where
  "WaveGenerator_init = \<lparr>raw_codes = []\<rparr>"

text \<open>\<open>WaveGenerator.zero\<close>: pull the output low, appending \<open>-duration\<close>.\<close>

definition wg_zero :: "WaveGenerator \<Rightarrow> int \<Rightarrow> WaveGenerator" where
  "wg_zero w duration = w\<lparr>raw_codes := raw_codes w @ [- duration]\<rparr>"

text \<open>\<open>WaveGenerator.one\<close>: drive the output high, appending \<open>duration\<close>.\<close>

definition wg_one :: "WaveGenerator \<Rightarrow> int \<Rightarrow> WaveGenerator" where
  "wg_one w duration = w\<lparr>raw_codes := raw_codes w @ [duration]\<rparr>"

text \<open>
  The \<open>NEC\<close> object. The attribute \<open>duty_cycle\<close> (a float, 0.33 by default) is set by
  the constructor and read by no method; it is left out of the record.
\<close>

record NEC =
  wave_generator :: WaveGenerator
  frequency :: int
  leading_pulse_duration :: int
  leading_gap_duration :: int
  one_pulse_duration :: int
  one_gap_duration :: int
  zero_pulse_duration :: int
  zero_gap_duration :: int
  trailing_pulse_duration :: int
  trailing_gap_duration :: int

text \<open>The keyword arguments of \<open>NEC.__init__\<close> that a caller may override.\<close>

record protocol_config =
  cfg_frequency :: int
  cfg_leading_pulse_duration :: int
  cfg_leading_gap_duration :: int
  cfg_one_pulse_duration :: int
  cfg_one_gap_duration :: int
  cfg_zero_pulse_duration :: int
  cfg_zero_gap_duration :: int
  cfg_trailing_pulse_duration :: int
  cfg_trailing_gap_duration :: int

text \<open>The defaults of \<open>NEC.__init__\<close>.\<close>

definition NEC_defaults :: protocol_config where
  "NEC_defaults = \<lparr>cfg_frequency = 38000,
     cfg_leading_pulse_duration = 9000, cfg_leading_gap_duration = 4500,
     cfg_one_pulse_duration = 562, cfg_one_gap_duration = 1686,
     cfg_zero_pulse_duration = 562, cfg_zero_gap_duration = 562,
     cfg_trailing_pulse_duration = 562, cfg_trailing_gap_duration = 0\<rparr>"

text \<open>\<open>NEC.__init__\<close>: every protocol object owns a new, empty wave generator.\<close>

definition NEC_init :: "protocol_config \<Rightarrow> NEC" where
  "NEC_init c = \<lparr>wave_generator = WaveGenerator_init,
     frequency = cfg_frequency c,
     leading_pulse_duration = cfg_leading_pulse_duration c,
     leading_gap_duration = cfg_leading_gap_duration c,
     one_pulse_duration = cfg_one_pulse_duration c,
     one_gap_duration = cfg_one_gap_duration c,
     zero_pulse_duration = cfg_zero_pulse_duration c,
     zero_gap_duration = cfg_zero_gap_duration c,
     trailing_pulse_duration = cfg_trailing_pulse_duration c,
     trailing_gap_duration = cfg_trailing_gap_duration c\<rparr>"

text \<open>\<open>NEC.send_agc\<close>: the leading burst, a high entry and then a low entry.\<close>

definition send_agc :: "NEC \<Rightarrow> NEC" where
  "send_agc s =
     (let s = s\<lparr>wave_generator := wg_one (wave_generator s) (leading_pulse_duration s)\<rparr>;
          s = s\<lparr>wave_generator := wg_zero (wave_generator s) (leading_gap_duration s)\<rparr>
      in s)"

text \<open>\<open>NEC.send_trailing_pulse\<close>: the low entry is appended only for a positive gap.\<close>

definition send_trailing_pulse :: "NEC \<Rightarrow> NEC" where
  "send_trailing_pulse s =
     (let s = s\<lparr>wave_generator := wg_one (wave_generator s) (trailing_pulse_duration s)\<rparr>
      in if trailing_gap_duration s > 0
         then s\<lparr>wave_generator := wg_zero (wave_generator s) (trailing_gap_duration s)\<rparr>
         else s)"

text \<open>\<open>NEC.zero\<close> and \<open>NEC.one\<close>: one symbol is a pulse followed by its gap.\<close>

definition NEC_zero :: "NEC \<Rightarrow> NEC" where
  "NEC_zero s =
     (let s = s\<lparr>wave_generator := wg_one (wave_generator s) (zero_pulse_duration s)\<rparr>;
          s = s\<lparr>wave_generator := wg_zero (wave_generator s) (zero_gap_duration s)\<rparr>
      in s)"

definition NEC_one :: "NEC \<Rightarrow> NEC" where
  "NEC_one s =
     (let s = s\<lparr>wave_generator := wg_one (wave_generator s) (one_pulse_duration s)\<rparr>;
          s = s\<lparr>wave_generator := wg_zero (wave_generator s) (one_gap_duration s)\<rparr>
      in s)"

text \<open>
  The \<open>for i in ircode\<close> loop of \<open>NEC.process_code\<close>. \<open>Inl s\<close> is the early
  \<open>return 1\<close> at a symbol that is neither "0" nor "1", taken in the state \<open>s\<close> the
  object has reached by then; \<open>Inr s\<close> is the loop running to its end.
\<close>

fun process_symbols :: "NEC \<Rightarrow> string \<Rightarrow> NEC + NEC" where
  "process_symbols s [] = Inr s"
| "process_symbols s (i # ircode) =
     (if i = CHR ''0'' then process_symbols (NEC_zero s) ircode
      else if i = CHR ''1'' then process_symbols (NEC_one s) ircode
      else Inl s)"

text \<open>\<open>NEC.process_code\<close>: the returned status (0 or 1) and the object afterwards.\<close>

definition process_code :: "NEC \<Rightarrow> string \<Rightarrow> int \<times> NEC" where
  "process_code s ircode =
     (let s = (if leading_pulse_duration s > 0 \<or> leading_gap_duration s > 0
               then send_agc s else s)
      in case process_symbols s ircode of
           Inl s \<Rightarrow> (1, s)
         | Inr s \<Rightarrow>
             (0, if trailing_pulse_duration s > 0 then send_trailing_pulse s else s))"

text \<open>
  An \<open>IrSender\<close> holds one protocol object, made by its constructor from the
  configuration dictionary.
\<close>

record IrSender =
  protocol :: NEC

definition IrSender_init :: "protocol_config \<Rightarrow> IrSender" where
  "IrSender_init protocol_conf = \<lparr>protocol = NEC_init protocol_conf\<rparr>"

text \<open>
  The \<open>for _ in range(0, nb)\<close> loop of \<open>IrSender.send_code\<close>, with \<open>nb\<close> the number
  of iterations left (a non-positive \<open>nb\<close> gives an empty range, as 0 does).
  The method returns either the integer 1 (\<open>Inl 1\<close>) or the list object
  \<open>raw_codes\<close> of the wave generator (\<open>Inr\<close>).
\<close>

fun send_code :: "IrSender \<Rightarrow> string \<Rightarrow> nat \<Rightarrow> (int + int list) \<times> IrSender" where
  "send_code s ircode 0 = (Inr (raw_codes (wave_generator (protocol s))), s)"
| "send_code s ircode (Suc nb) =
     (case process_code (protocol s) ircode of (code, p) \<Rightarrow>
        if code \<noteq> 0 then (Inl 1, s\<lparr>protocol := p\<rparr>)
        else send_code (s\<lparr>protocol := p\<rparr>) ircode nb)"

text \<open>
  The inner \<open>while max_mask > mask > 0\<close> loop of \<open>IrSender.send_data\<close> for one data
  entry \<open>d = data[idx]\<close>. The loop variable \<open>mask\<close> is \<open>bmask\<close> here, and
  \<open>mask << 1\<close> is \<open>push_bit 1 bmask\<close>.
\<close>

function bits_loop :: "int \<Rightarrow> int \<Rightarrow> bool \<Rightarrow> int \<Rightarrow> string \<Rightarrow> string" where
  "bits_loop d max_mask must_invert bmask code =
     (if max_mask > bmask \<and> bmask > 0 then
        bits_loop d max_mask must_invert (push_bit 1 bmask)
          (if must_invert then
             (if d AND bmask \<noteq> 0 then code @ ''1'' else code @ ''0'')
           else
             (if d AND bmask \<noteq> 0 then ''1'' @ code else ''0'' @ code))
      else code)"
  by pat_completeness auto
termination
proof (relation "measure (\<lambda>(d, max_mask, must_invert, bmask, code). nat (max_mask - bmask))")
  show "wf (measure (\<lambda>(d, max_mask, must_invert, bmask, code). nat (max_mask - bmask)))"
    by simp
next
  fix d max_mask :: int and must_invert :: bool and bmask :: int and code :: string
  assume "bmask < max_mask \<and> 0 < bmask"
  then show "((d, max_mask, must_invert, push_bit 1 bmask,
                if must_invert then if d AND bmask \<noteq> 0 then code @ ''1'' else code @ ''0''
                else if d AND bmask \<noteq> 0 then ''1'' @ code else ''0'' @ code),
               d, max_mask, must_invert, bmask, code)
             \<in> measure (\<lambda>(d, max_mask, must_invert, bmask, code). nat (max_mask - bmask))"
    by (simp add: push_bit_eq_mult)
qed

declare bits_loop.simps [simp del]

text \<open>
  The outer \<open>for i in range(0, len(data))\<close> loop, over the list of the indices still to
  visit. Every \<open>idx\<close> it computes is below \<open>len(data)\<close>.
\<close>

fun bytes_loop :: "int list \<Rightarrow> int \<Rightarrow> bool \<Rightarrow> nat list \<Rightarrow> string \<Rightarrow> string" where
  "bytes_loop data max_mask must_invert [] code = code"
| "bytes_loop data max_mask must_invert (i # is) code =
     (let idx = (if must_invert then i else length data - i - 1)
      in bytes_loop data max_mask must_invert is
           (bits_loop (data ! idx) max_mask must_invert 1 code))"

definition send_data ::
  "IrSender \<Rightarrow> int list \<Rightarrow> int \<Rightarrow> bool \<Rightarrow> nat \<Rightarrow> (int + int list) \<times> IrSender" where
  "send_data s data max_mask must_invert nb =
     send_code s (bytes_loop data max_mask must_invert [0..<length data] []) nb"

section \<open>The Mitsubishi frame (utils/mitsubishi.py)\<close>

text \<open>
  The mode classes hold plain integer constants, and the methods accept any integer in
  their place, so a mode is an \<open>int\<close>.
\<close>

definition PowerMode_PowerOff :: int where "PowerMode_PowerOff = 0x00"
definition PowerMode_PowerOn :: int where "PowerMode_PowerOn = 0x20"

definition ClimateMode_Hot :: int where "ClimateMode_Hot = 0x08"
definition ClimateMode_Cold :: int where "ClimateMode_Cold = 0x18"
definition ClimateMode_Dry :: int where "ClimateMode_Dry = 0x10"
definition ClimateMode_Auto :: int where "ClimateMode_Auto = 0x20"

definition ClimateMode_Hot2 :: int where "ClimateMode_Hot2 = 0x00"
definition ClimateMode_Cold2 :: int where "ClimateMode_Cold2 = 0x06"
definition ClimateMode_Dry2 :: int where "ClimateMode_Dry2 = 0x02"
definition ClimateMode_Auto2 :: int where "ClimateMode_Auto2 = 0x00"

text \<open>
  \<open>ClimateMode.climate2\<close>: four \<open>if ... return\<close> statements and nothing after
  them, so every other argument falls off the end of the method, which returns
  Python's \<open>None\<close>.
\<close>

definition climate2 :: "int \<Rightarrow> int option" where
  "climate2 climate_mode =
     (if climate_mode = ClimateMode_Hot then Some ClimateMode_Hot2
      else if climate_mode = ClimateMode_Cold then Some ClimateMode_Cold2
      else if climate_mode = ClimateMode_Dry then Some ClimateMode_Dry2
      else if climate_mode = ClimateMode_Auto then Some ClimateMode_Auto2
      else None)"

definition ISeeMode_ISeeOff :: int where "ISeeMode_ISeeOff = 0x00"
definition ISeeMode_ISeeOn :: int where "ISeeMode_ISeeOn = 0x40"

definition PowerfulMode_PowerfulOff :: int where "PowerfulMode_PowerfulOff = 0x00"
definition PowerfulMode_PowerfulOn :: int where "PowerfulMode_PowerfulOn = 0x08"

definition VanneHorizontalMode_NotSet :: int where "VanneHorizontalMode_NotSet = 0x00"
definition VanneHorizontalMode_Left :: int where "VanneHorizontalMode_Left = 0x10"
definition VanneHorizontalMode_MiddleLeft :: int where "VanneHorizontalMode_MiddleLeft = 0x20"
definition VanneHorizontalMode_Middle :: int where "VanneHorizontalMode_Middle = 0x30"
definition VanneHorizontalMode_MiddleRight :: int where "VanneHorizontalMode_MiddleRight = 0x40"
definition VanneHorizontalMode_Right :: int where "VanneHorizontalMode_Right = 0x50"
definition VanneHorizontalMode_Swing :: int where "VanneHorizontalMode_Swing = 0xC0"

definition FanMode_Speed1 :: int where "FanMode_Speed1 = 0x01"
definition FanMode_Speed2 :: int where "FanMode_Speed2 = 0x02"
definition FanMode_Speed3 :: int where "FanMode_Speed3 = 0x03"
definition FanMode_Speed4 :: int where "FanMode_Speed4 = 0x04"
definition FanMode_Auto :: int where "FanMode_Auto = 0x80"

definition VanneVerticalMode_Auto :: int where "VanneVerticalMode_Auto = 0x40"
definition VanneVerticalMode_Top :: int where "VanneVerticalMode_Top = 0x48"
definition VanneVerticalMode_MiddleTop :: int where "VanneVerticalMode_MiddleTop = 0x50"
definition VanneVerticalMode_Middle :: int where "VanneVerticalMode_Middle = 0x58"
definition VanneVerticalMode_MiddleBottom :: int where "VanneVerticalMode_MiddleBottom = 0x60"
definition VanneVerticalMode_Bottom :: int where "VanneVerticalMode_Bottom = 0x68"
definition VanneVerticalMode_Swing :: int where "VanneVerticalMode_Swing = 0x78"

definition TimeControlMode_NoTimeControl :: int where "TimeControlMode_NoTimeControl = 0x00"
definition TimeControlMode_ControlStart :: int where "TimeControlMode_ControlStart = 0x05"
definition TimeControlMode_ControlEnd :: int where "TimeControlMode_ControlEnd = 0x03"
definition TimeControlMode_ControlBoth :: int where "TimeControlMode_ControlBoth = 0x07"

definition AreaMode_NotSet :: int where "AreaMode_NotSet = 0x00"
definition AreaMode_Left :: int where "AreaMode_Left = 0x40"
definition AreaMode_Right :: int where "AreaMode_Right = 0xC0"
definition AreaMode_Full :: int where "AreaMode_Full = 0x80"

definition Delay_HdrMark :: int where "Delay_HdrMark = 3400"
definition Delay_HdrSpace :: int where "Delay_HdrSpace = 1750"
definition Delay_BitMark :: int where "Delay_BitMark = 450"
definition Delay_OneSpace :: int where "Delay_OneSpace = 1300"
definition Delay_ZeroSpace :: int where "Delay_ZeroSpace = 420"
definition Delay_RptMark :: int where "Delay_RptMark = 440"
definition Delay_RptSpace :: int where "Delay_RptSpace = 17100"

definition Index_Header0 :: nat where "Index_Header0 = 0"
definition Index_Header1 :: nat where "Index_Header1 = 1"
definition Index_Header2 :: nat where "Index_Header2 = 2"
definition Index_Header3 :: nat where "Index_Header3 = 3"
definition Index_Header4 :: nat where "Index_Header4 = 4"
definition Index_Power :: nat where "Index_Power = 5"
definition Index_ClimateAndISee :: nat where "Index_ClimateAndISee = 6"
definition Index_Temperature :: nat where "Index_Temperature = 7"
definition Index_ClimateAndHorizontalVanne :: nat where "Index_ClimateAndHorizontalVanne = 8"
definition Index_FanAndVerticalVanne :: nat where "Index_FanAndVerticalVanne = 9"
definition Index_Clock :: nat where "Index_Clock = 10"
definition Index_EndTime :: nat where "Index_EndTime = 11"
definition Index_StartTime :: nat where "Index_StartTime = 12"
definition Index_TimeControlAndArea :: nat where "Index_TimeControlAndArea = 13"
definition Index_Unused14 :: nat where "Index_Unused14 = 14"
definition Index_PowerfulMode :: nat where "Index_PowerfulMode = 15"
definition Index_Unused16 :: nat where "Index_Unused16 = 16"
definition Index_CRC :: nat where "Index_CRC = 17"

definition Constants_Frequency :: int where "Constants_Frequency = 38000"
definition Constants_MinTemp :: int where "Constants_MinTemp = 16"
definition Constants_MaxTemp :: int where "Constants_MaxTemp = 31"
definition Constants_MaxMask :: int where "Constants_MaxMask = 0xFF"
definition Constants_NbBytes :: nat where "Constants_NbBytes = 18"
definition Constants_NbPackets :: nat where "Constants_NbPackets = 2"

text \<open>
  What the builder reads of a \<open>datetime\<close> or \<open>time\<close> object: its \<open>hour\<close> and its
  \<open>minute\<close>. The wall clock \<open>datetime.today()\<close> is a parameter \<open>now\<close> of the
  model.
\<close>

record time_of_day =
  hour :: int
  minute :: int

text \<open>
  The first ten parameters of \<open>Mitsubishi.__send_command\<close>; \<open>None\<close> for a time is
  \<open>None\<close> here.
\<close>

record command_args =
  climate_mode :: int
  temperature :: int
  fan_mode :: int
  vanne_vertical_mode :: int
  vanne_horizontal_mode :: int
  isee_mode :: int
  area_mode :: int
  start_time :: "time_of_day option"
  end_time :: "time_of_day option"
  powerful :: int

datatype py_error = TypeError

text \<open>The literal list that \<open>__send_command\<close> starts from.\<close>

definition frame_template :: "int list" where
  "frame_template = [0x23, 0xCB, 0x26, 0x01, 0x00, 0x20,
                     0x08, 0x06, 0x30, 0x45, 0x67, 0x00,
                     0x00, 0x00, 0x10, 0x00, 0x00, 0x1F]"

text \<open>
  The \<open>if/elif/else\<close> chain of \<open>__send_command\<close> that chooses \<open>time_control\<close> from
  \<open>end_time\<close> and \<open>start_time\<close>, in the order of the source.
\<close>

definition time_control :: "time_of_day option \<Rightarrow> time_of_day option \<Rightarrow> int" where
  "time_control end_t start_t =
     (if end_t \<noteq> None \<and> start_t \<noteq> None then TimeControlMode_ControlBoth
      else if end_t \<noteq> None then TimeControlMode_ControlEnd
      else if start_t \<noteq> None then TimeControlMode_ControlStart
      else TimeControlMode_NoTimeControl)"

text \<open>
  The part of \<open>__send_command\<close> that fills the list \<open>data\<close>, assignment by assignment.
  \<open>climate2\<close> returning \<open>None\<close> makes \<open>None | vanne_horizontal_mode\<close> raise
  \<open>TypeError\<close>, which is the only way this part can fail. All the indices are constants
  below 18, and \<open>data[:-1]\<close> is \<open>butlast data\<close>.
\<close>

definition build_frame :: "command_args \<Rightarrow> int \<Rightarrow> time_of_day \<Rightarrow> py_error + int list" where
  "build_frame a power_mode now =
     (let data = frame_template;
          data = data[Index_Power := power_mode];
          data = data[Index_ClimateAndISee := climate_mode a OR isee_mode a];
          data = data[Index_Temperature :=
                   max Constants_MinTemp (min Constants_MaxTemp (temperature a)) - 16]
      in case climate2 (climate_mode a) of
           None \<Rightarrow> Inl TypeError
         | Some c2 \<Rightarrow>
            (let data = data[Index_ClimateAndHorizontalVanne := c2 OR vanne_horizontal_mode a];
                 data = data[Index_FanAndVerticalVanne := fan_mode a OR vanne_vertical_mode a];
                 data = data[Index_Clock := hour now * 6 + minute now div 10];
                 data = (case end_time a of
                           None \<Rightarrow> data[Index_EndTime := 0]
                         | Some e \<Rightarrow> data[Index_EndTime := hour e * 6 + minute e div 10]);
                 data = (case start_time a of
                           None \<Rightarrow> data[Index_StartTime := 0]
                         | Some b \<Rightarrow> data[Index_StartTime := hour b * 6 + minute b div 10]);
                 data = data[Index_TimeControlAndArea :=
                          time_control (end_time a) (start_time a) OR area_mode a];
                 data = data[Index_PowerfulMode := powerful a];
                 data = data[Index_CRC := sum_list (butlast data) mod (Constants_MaxMask + 1)]
             in Inr data))"

text \<open>The timing dictionary that \<open>__send_command\<close> passes to \<open>IrSender\<close>.\<close>

definition mitsubishi_config :: protocol_config where
  "mitsubishi_config = NEC_defaults\<lparr>
     cfg_leading_pulse_duration := Delay_HdrMark,
     cfg_leading_gap_duration := Delay_HdrSpace,
     cfg_one_pulse_duration := Delay_BitMark,
     cfg_one_gap_duration := Delay_OneSpace,
     cfg_zero_pulse_duration := Delay_BitMark,
     cfg_zero_gap_duration := Delay_ZeroSpace,
     cfg_trailing_pulse_duration := Delay_RptMark,
     cfg_trailing_gap_duration := Delay_RptSpace\<rparr>"

text \<open>
  Objects outlive the call that made them, so an invocation runs in a heap: the list of
  the \<open>IrSender\<close> objects allocated so far, each at the address of its position.
  \<open>IrSender(...)\<close> allocates at the next free address.
\<close>

type_synonym heap = "IrSender list"

definition IrSender_new :: "protocol_config \<Rightarrow> heap \<Rightarrow> nat \<times> heap" where
  "IrSender_new protocol_conf h = (length h, h @ [IrSender_init protocol_conf])"

text \<open>\<open>sender.send_data(...)\<close> on the object at address \<open>sender\<close>, which it mutates.\<close>

definition heap_send_data ::
  "nat \<Rightarrow> int list \<Rightarrow> int \<Rightarrow> bool \<Rightarrow> nat \<Rightarrow> heap \<Rightarrow> (int + int list) \<times> heap" where
  "heap_send_data sender data max_mask must_invert nb h =
     (case send_data (h ! sender) data max_mask must_invert nb of
        (res, s) \<Rightarrow> (res, h[sender := s]))"

text \<open>
  \<open>Mitsubishi.__send_command\<close>: a new sender, the frame, and the frame sent twice with
  the bit order inverted. The result is \<open>Inl TypeError\<close> for the exception, and else
  what \<open>send_data\<close> returned.
\<close>

definition Mitsubishi__send_command ::
  "command_args \<Rightarrow> int \<Rightarrow> time_of_day \<Rightarrow> heap \<Rightarrow> (py_error + (int + int list)) \<times> heap" where
  "Mitsubishi__send_command a power_mode now h =
     (case IrSender_new mitsubishi_config h of (sender, h) \<Rightarrow>
        (case build_frame a power_mode now of
           Inl e \<Rightarrow> (Inl e, h)
         | Inr data \<Rightarrow>
            (case heap_send_data sender data Constants_MaxMask True Constants_NbPackets h of
               (res, h) \<Rightarrow> (Inr res, h))))"

text \<open>The public \<open>send_command\<close> and \<open>power_off\<close>.\<close>

definition send_command ::
  "command_args \<Rightarrow> time_of_day \<Rightarrow> heap \<Rightarrow> (py_error + (int + int list)) \<times> heap" where
  "send_command a now h = Mitsubishi__send_command a PowerMode_PowerOn now h"

definition power_off_args :: command_args where
  "power_off_args = \<lparr>climate_mode = ClimateMode_Auto, temperature = 21,
     fan_mode = FanMode_Auto, vanne_vertical_mode = VanneVerticalMode_Auto,
     vanne_horizontal_mode = VanneHorizontalMode_Swing, isee_mode = ISeeMode_ISeeOff,
     area_mode = AreaMode_NotSet, start_time = None, end_time = None,
     powerful = PowerfulMode_PowerfulOff\<rparr>"

definition power_off :: "time_of_day \<Rightarrow> heap \<Rightarrow> (py_error + (int + int list)) \<times> heap" where
  "power_off now h = Mitsubishi__send_command power_off_args PowerMode_PowerOff now h"

section \<open>Notions used to state the properties\<close>

text \<open>
  The values that the loop variable \<open>mask\<close> of \<open>send_data\<close> takes while the loop
  body runs, in the order in which it takes them: the loop of \<open>bits_loop\<close> with the
  body left out.
\<close>

function visited_masks :: "int \<Rightarrow> int \<Rightarrow> int list" where
  "visited_masks max_mask bmask =
     (if max_mask > bmask \<and> bmask > 0
      then bmask # visited_masks max_mask (push_bit 1 bmask) else [])"
  by pat_completeness auto
termination
proof (relation "measure (\<lambda>(max_mask, bmask). nat (max_mask - bmask))")
  show "wf (measure (\<lambda>(max_mask, bmask). nat (max_mask - bmask)))"
    by simp
next
  fix max_mask bmask :: int
  assume "bmask < max_mask \<and> 0 < bmask"
  then show "((max_mask, push_bit 1 bmask), max_mask, bmask)
             \<in> measure (\<lambda>(max_mask, bmask). nat (max_mask - bmask))"
    by (simp add: push_bit_eq_mult)
qed

declare visited_masks.simps [simp del]

text \<open>The body of that loop: what one visit of \<open>bmask\<close> does to \<open>code\<close>.\<close>

definition bit_step :: "int \<Rightarrow> bool \<Rightarrow> string \<Rightarrow> int \<Rightarrow> string" where
  "bit_step d must_invert code bmask =
     (if must_invert then
        (if d AND bmask \<noteq> 0 then code @ ''1'' else code @ ''0'')
      else
        (if d AND bmask \<noteq> 0 then ''1'' @ code else ''0'' @ code))"


text \<open>The symbols that \<open>process_code\<close> accepts.\<close>

definition valid_symbol :: "char \<Rightarrow> bool" where
  "valid_symbol i = (i = CHR ''0'' \<or> i = CHR ''1'')"

text \<open>Appending entries to the wave generator of a protocol object.\<close>

definition emit :: "NEC \<Rightarrow> int list \<Rightarrow> NEC" where
  "emit s xs =
     s\<lparr>wave_generator := (wave_generator s)\<lparr>raw_codes := raw_codes (wave_generator s) @ xs\<rparr>\<rparr>"

text \<open>
  The entries of one complete emission of a code under the timing of \<open>s\<close>: the leading
  burst, a pulse and a gap for each symbol, the trailing burst.
\<close>

definition leading_burst :: "NEC \<Rightarrow> int list" where
  "leading_burst s =
     (if leading_pulse_duration s > 0 \<or> leading_gap_duration s > 0
      then [leading_pulse_duration s, - leading_gap_duration s] else [])"

definition symbol_wave :: "NEC \<Rightarrow> char \<Rightarrow> int list" where
  "symbol_wave s i =
     (if i = CHR ''0'' then [zero_pulse_duration s, - zero_gap_duration s]
      else [one_pulse_duration s, - one_gap_duration s])"

definition trailing_burst :: "NEC \<Rightarrow> int list" where
  "trailing_burst s =
     (if trailing_pulse_duration s > 0
      then (if trailing_gap_duration s > 0
            then [trailing_pulse_duration s, - trailing_gap_duration s]
            else [trailing_pulse_duration s])
      else [])"

definition full_waveform :: "NEC \<Rightarrow> string \<Rightarrow> int list" where
  "full_waveform s ircode =
     leading_burst s @ concat (map (symbol_wave s) ircode) @ trailing_burst s"

text \<open>
  The value that \<open>__send_command\<close> stores for an optional time: 0 for \<open>None\<close>, and
  else the time in steps of ten minutes.
\<close>

definition time_field :: "time_of_day option \<Rightarrow> int" where
  "time_field t = (case t of None \<Rightarrow> 0 | Some x \<Rightarrow> hour x * 6 + minute x div 10)"

text \<open>
  The first seventeen entries of a finished frame, given the secondary climate code
  \<open>c2\<close>.
\<close>

definition frame_fields :: "command_args \<Rightarrow> int \<Rightarrow> time_of_day \<Rightarrow> int \<Rightarrow> int list" where
  "frame_fields a power_mode now c2 =
     [0x23, 0xCB, 0x26, 0x01, 0x00,
      power_mode,
      climate_mode a OR isee_mode a,
      max 16 (min 31 (temperature a)) - 16,
      c2 OR vanne_horizontal_mode a,
      fan_mode a OR vanne_vertical_mode a,
      hour now * 6 + minute now div 10,
      time_field (end_time a),
      time_field (start_time a),
      time_control (end_time a) (start_time a) OR area_mode a,
      0x10,
      powerful a,
      0x00]"

section \<open>One emission and its repetitions\<close>

lemma emit_fields [simp]:
  "leading_pulse_duration (emit s xs) = leading_pulse_duration s"
  "leading_gap_duration (emit s xs) = leading_gap_duration s"
  "one_pulse_duration (emit s xs) = one_pulse_duration s"
  "one_gap_duration (emit s xs) = one_gap_duration s"
  "zero_pulse_duration (emit s xs) = zero_pulse_duration s"
  "zero_gap_duration (emit s xs) = zero_gap_duration s"
  "trailing_pulse_duration (emit s xs) = trailing_pulse_duration s"
  "trailing_gap_duration (emit s xs) = trailing_gap_duration s"
  "raw_codes (wave_generator (emit s xs)) = raw_codes (wave_generator s) @ xs"
  by (simp_all add: emit_def)

lemma emit_emit [simp]: "emit (emit s xs) ys = emit s (xs @ ys)"
  by (simp add: emit_def)

lemma emit_Nil [simp]: "emit s [] = s"
  by (simp add: emit_def)

lemma NEC_zero_emit: "NEC_zero s = emit s [zero_pulse_duration s, - zero_gap_duration s]"
  by (simp add: NEC_zero_def emit_def wg_one_def wg_zero_def Let_def)

lemma NEC_one_emit: "NEC_one s = emit s [one_pulse_duration s, - one_gap_duration s]"
  by (simp add: NEC_one_def emit_def wg_one_def wg_zero_def Let_def)

lemma send_agc_emit: "send_agc s = emit s [leading_pulse_duration s, - leading_gap_duration s]"
  by (simp add: send_agc_def emit_def wg_one_def wg_zero_def Let_def)

lemma send_trailing_pulse_emit:
  "send_trailing_pulse s =
     emit s (if trailing_gap_duration s > 0
             then [trailing_pulse_duration s, - trailing_gap_duration s]
             else [trailing_pulse_duration s])"
  by (simp add: send_trailing_pulse_def emit_def wg_one_def wg_zero_def Let_def)

lemma symbol_wave_emit [simp]: "symbol_wave (emit s xs) = symbol_wave s"
  by (rule ext) (simp add: symbol_wave_def)

lemma leading_burst_emit [simp]: "leading_burst (emit s xs) = leading_burst s"
  by (simp add: leading_burst_def)

lemma trailing_burst_emit [simp]: "trailing_burst (emit s xs) = trailing_burst s"
  by (simp add: trailing_burst_def)

lemma full_waveform_emit [simp]: "full_waveform (emit s xs) ircode = full_waveform s ircode"
  by (simp add: full_waveform_def)

lemma symbol_wave_simps:
  "symbol_wave s CHR ''0'' = [zero_pulse_duration s, - zero_gap_duration s]"
  "symbol_wave s CHR ''1'' = [one_pulse_duration s, - one_gap_duration s]"
  by (simp_all add: symbol_wave_def)

lemma process_symbols_valid:
  "list_all valid_symbol ircode \<Longrightarrow>
   process_symbols s ircode = Inr (emit s (concat (map (symbol_wave s) ircode)))"
proof (induction ircode arbitrary: s)
  case Nil
  then show ?case by simp
next
  case (Cons i ircode)
  then show ?case
    by (auto simp: valid_symbol_def NEC_zero_emit NEC_one_emit symbol_wave_simps)
qed

lemma process_symbols_invalid:
  "\<not> list_all valid_symbol ircode \<Longrightarrow>
   process_symbols s ircode =
     Inl (emit s (concat (map (symbol_wave s) (takeWhile valid_symbol ircode))))"
proof (induction ircode arbitrary: s)
  case Nil
  then show ?case by simp
next
  case (Cons i ircode)
  then show ?case
    by (auto simp: valid_symbol_def NEC_zero_emit NEC_one_emit symbol_wave_simps)
qed

lemma process_code_valid:
  "list_all valid_symbol ircode \<Longrightarrow>
   process_code s ircode = (0, emit s (full_waveform s ircode))"
  by (simp add: process_code_def process_symbols_valid send_agc_emit send_trailing_pulse_emit
      full_waveform_def leading_burst_def trailing_burst_def Let_def)

lemma process_code_invalid:
  "\<not> list_all valid_symbol ircode \<Longrightarrow>
   process_code s ircode =
     (1, emit s (leading_burst s @
                 concat (map (symbol_wave s) (takeWhile valid_symbol ircode))))"
  by (simp add: process_code_def process_symbols_invalid send_agc_emit leading_burst_def Let_def)

lemma send_code_valid:
  "list_all valid_symbol ircode \<Longrightarrow>
   send_code s ircode nb =
     (Inr (raw_codes (wave_generator (protocol s)) @
           concat (replicate nb (full_waveform (protocol s) ircode))),
      s\<lparr>protocol := emit (protocol s) (concat (replicate nb (full_waveform (protocol s) ircode)))\<rparr>)"
proof (induction nb arbitrary: s)
  case 0
  then show ?case by simp
next
  case (Suc nb)
  then show ?case
    by (simp add: process_code_valid)
qed

lemma send_code_invalid:
  "\<not> list_all valid_symbol ircode \<Longrightarrow> fst (send_code s ircode (Suc nb)) = Inl 1"
  by (simp add: process_code_invalid)

section \<open>The bit loop of send\_data\<close>

lemma bits_loop_foldl:
  "bits_loop d max_mask must_invert bmask code =
     foldl (bit_step d must_invert) code (visited_masks max_mask bmask)"
proof (induction d max_mask must_invert bmask code rule: bits_loop.induct)
  case (1 d max_mask must_invert bmask code)
  show ?case
  proof (cases "max_mask > bmask \<and> bmask > 0")
    case True
    have body: "(if must_invert then
                   (if d AND bmask \<noteq> 0 then code @ ''1'' else code @ ''0'')
                 else
                   (if d AND bmask \<noteq> 0 then ''1'' @ code else ''0'' @ code))
                = bit_step d must_invert code bmask"
      by (simp only: bit_step_def)
    have "bits_loop d max_mask must_invert bmask code =
            bits_loop d max_mask must_invert (push_bit 1 bmask)
              (bit_step d must_invert code bmask)"
      using True by (subst bits_loop.simps) (simp only: body if_True simp_thms)
    also have "\<dots> = foldl (bit_step d must_invert) (bit_step d must_invert code bmask)
                       (visited_masks max_mask (push_bit 1 bmask))"
      using "1.IH" [OF True] by (simp only: body)
    also have "\<dots> = foldl (bit_step d must_invert) code
                       (bmask # visited_masks max_mask (push_bit 1 bmask))"
      by (simp only: foldl_Cons)
    also have "bmask # visited_masks max_mask (push_bit 1 bmask) = visited_masks max_mask bmask"
      using True by (subst (2) visited_masks.simps) (simp only: if_True simp_thms)
    finally show ?thesis .
  next
    case False
    have "bits_loop d max_mask must_invert bmask code = code"
      using False by (subst bits_loop.simps) (simp only: if_False simp_thms)
    moreover have "visited_masks max_mask bmask = []"
      using False by (subst visited_masks.simps) (simp only: if_False simp_thms)
    ultimately show ?thesis by simp
  qed
qed










section \<open>What send\_data returns\<close>

lemma bit_step_valid:
  "list_all valid_symbol code \<Longrightarrow> list_all valid_symbol (bit_step d must_invert code bmask)"
  by (simp add: bit_step_def valid_symbol_def)

lemma foldl_bit_step_valid:
  "list_all valid_symbol code \<Longrightarrow> list_all valid_symbol (foldl (bit_step d must_invert) code ms)"
  by (induction ms arbitrary: code) (simp_all add: bit_step_valid)

lemma bits_loop_valid:
  "list_all valid_symbol code \<Longrightarrow>
   list_all valid_symbol (bits_loop d max_mask must_invert bmask code)"
  by (simp only: bits_loop_foldl foldl_bit_step_valid)

lemma bytes_loop_valid:
  "list_all valid_symbol code \<Longrightarrow>
   list_all valid_symbol (bytes_loop data max_mask must_invert idxs code)"
  by (induction idxs arbitrary: code) (simp_all add: bits_loop_valid Let_def)

lemma send_data_result:
  "send_data s data max_mask must_invert nb =
     (let ircode = bytes_loop data max_mask must_invert [0..<length data] [] in
      (Inr (raw_codes (wave_generator (protocol s)) @
            concat (replicate nb (full_waveform (protocol s) ircode))),
       s\<lparr>protocol := emit (protocol s)
                        (concat (replicate nb (full_waveform (protocol s) ircode)))\<rparr>))"
  unfolding send_data_def Let_def
  by (rule send_code_valid) (simp add: bytes_loop_valid)

lemma fresh_sender_codes:
  "raw_codes (wave_generator (protocol (IrSender_init c))) = []"
  by (simp add: IrSender_init_def NEC_init_def WaveGenerator_init_def)

section \<open>The frame in closed form\<close>

lemma time_field_update:
  "(case t of None \<Rightarrow> data[i := 0] | Some x \<Rightarrow> data[i := hour x * 6 + minute x div 10]) =
     data[i := time_field t]"
  by (simp add: time_field_def split: option.split)

lemma build_frame_Some:
  assumes "climate2 (climate_mode a) = Some c2"
  shows "build_frame a power_mode now =
           Inr (frame_fields a power_mode now c2 @
                [sum_list (frame_fields a power_mode now c2) mod 256])"
  unfolding build_frame_def Let_def time_field_update
  by (simp add: assms frame_fields_def frame_template_def
      Index_Power_def Index_ClimateAndISee_def Index_Temperature_def
      Index_ClimateAndHorizontalVanne_def Index_FanAndVerticalVanne_def Index_Clock_def
      Index_EndTime_def Index_StartTime_def Index_TimeControlAndArea_def
      Index_PowerfulMode_def Index_CRC_def Constants_MinTemp_def Constants_MaxTemp_def
      Constants_MaxMask_def eval_nat_numeral)

lemma build_frame_None:
  "climate2 (climate_mode a) = None \<Longrightarrow> build_frame a power_mode now = Inl TypeError"
  by (simp add: build_frame_def Let_def)

lemma climate2_Some_iff:
  "(\<exists>c2. climate2 m = Some c2) \<longleftrightarrow>
     m \<in> {ClimateMode_Hot, ClimateMode_Cold, ClimateMode_Dry, ClimateMode_Auto}"
  by (auto simp: climate2_def)

lemma Mitsubishi__send_command_result:
  "fst (Mitsubishi__send_command a power_mode now h) =
     (case build_frame a power_mode now of
        Inl e \<Rightarrow> Inl e
      | Inr data \<Rightarrow>
          Inr (fst (send_data (IrSender_init mitsubishi_config) data
                      Constants_MaxMask True Constants_NbPackets)))"
  by (simp add: Mitsubishi__send_command_def IrSender_new_def heap_send_data_def
      split: sum.split prod.split)

lemma length_frame_fields: "length (frame_fields a power_mode now c2) = 17"
  by (simp add: frame_fields_def)

lemmas mode_defs =
  ClimateMode_Hot_def ClimateMode_Cold_def ClimateMode_Dry_def ClimateMode_Auto_def
  ClimateMode_Hot2_def ClimateMode_Cold2_def ClimateMode_Dry2_def ClimateMode_Auto2_def

lemma nth_frame_fields:
  "i < 17 \<Longrightarrow>
   (frame_fields a power_mode now c2 @ [x]) ! i = frame_fields a power_mode now c2 ! i"
  by (simp add: nth_append length_frame_fields)

section \<open>The frame\<close>

text \<open>
  C1: for every argument record, power mode and clock reading, every frame that the
  builder produces has 18 entries, and its last entry is the sum of the 17 entries
  before it modulo 256. A frame is produced whenever the climate mode is one that
  \<open>climate2\<close> knows.
\<close>

theorem frame_checksum:
  "(climate2 (climate_mode a) \<noteq> None \<longrightarrow>
      (\<exists>frame. build_frame a power_mode now = Inr frame)) \<and>
   (\<forall>frame. build_frame a power_mode now = Inr frame \<longrightarrow>
      length frame = 18 \<and> frame ! 17 = sum_list (take 17 frame) mod 256)"
proof (cases "climate2 (climate_mode a)")
  case None
  then show ?thesis
    by (simp add: build_frame_None)
next
  case (Some c2)
  have "build_frame a power_mode now =
          Inr (frame_fields a power_mode now c2 @
               [sum_list (frame_fields a power_mode now c2) mod 256])"
    by (rule build_frame_Some [OF Some])
  then show ?thesis
    using Some by (auto simp: length_frame_fields nth_append)
qed

theorem frame_checksum_witness:
  "climate2 (climate_mode power_off_args) \<noteq> None \<and>
   build_frame power_off_args PowerMode_PowerOff \<lparr>hour = 13, minute = 45\<rparr> =
     Inr [35, 203, 38, 1, 0, 0, 32, 5, 192, 192, 82, 0, 0, 0, 16, 0, 0, 28] \<and>
   [35, 203, 38, 1, 0, 0, 32, 5, 192, 192, 82, 0, 0, 0, 16, 0, 0, 28 :: int] ! 17 =
     sum_list (take 17 [35, 203, 38, 1, 0, 0, 32, 5, 192, 192, 82, 0, 0, 0, 16, 0, 0, 28]) mod 256"
proof -
  have c: "climate2 (climate_mode power_off_args) = Some 0"
    by (simp add: climate2_def power_off_args_def ClimateMode_Auto_def ClimateMode_Hot_def
        ClimateMode_Cold_def ClimateMode_Dry_def ClimateMode_Auto2_def)
  have b: "build_frame power_off_args PowerMode_PowerOff \<lparr>hour = 13, minute = 45\<rparr> =
     Inr [35, 203, 38, 1, 0, 0, 32, 5, 192, 192, 82, 0, 0, 0, 16, 0, 0, 28]"
    by (subst build_frame_Some [OF c]) (simp add: frame_fields_def power_off_args_def
        PowerMode_PowerOff_def ClimateMode_Auto_def ISeeMode_ISeeOff_def
        VanneHorizontalMode_Swing_def FanMode_Auto_def VanneVerticalMode_Auto_def
        AreaMode_NotSet_def PowerfulMode_PowerfulOff_def time_field_def time_control_def
        TimeControlMode_NoTimeControl_def)
  show ?thesis
    using frame_checksum [of power_off_args PowerMode_PowerOff "\<lparr>hour = 13, minute = 45\<rparr>"]
    by (simp add: c b)
qed

text \<open>
  C6: whatever the other arguments are, for every integer temperature \<open>t\<close> the entry
  at \<open>Index.Temperature\<close> of a produced frame is \<open>max(16, min(31, t)) - 16\<close> and lies
  between 0 and 15. The temperature is never a reason for failing: with a climate mode
  that \<open>climate2\<close> knows, a frame is produced for every \<open>t\<close>. A temperature of 40
  gives the entry 15.
\<close>

theorem temperature_byte_clamped:
  "(climate2 (climate_mode a) \<noteq> None \<longrightarrow>
      (\<exists>frame. build_frame (a\<lparr>temperature := t\<rparr>) power_mode now = Inr frame)) \<and>
   (\<forall>frame. build_frame (a\<lparr>temperature := t\<rparr>) power_mode now = Inr frame \<longrightarrow>
      frame ! Index_Temperature = max 16 (min 31 t) - 16 \<and>
      0 \<le> frame ! Index_Temperature \<and> frame ! Index_Temperature \<le> 15)"
proof (cases "climate2 (climate_mode a)")
  case None
  then show ?thesis
    by (simp add: build_frame_None)
next
  case (Some c2)
  then have "climate2 (climate_mode (a\<lparr>temperature := t\<rparr>)) = Some c2"
    by simp
  from build_frame_Some [OF this, of power_mode now] show ?thesis
    by (simp add: Index_Temperature_def nth_frame_fields) (simp add: frame_fields_def)
qed

theorem temperature_byte_clamped_witness:
  "climate2 (climate_mode
      \<lparr>climate_mode = ClimateMode_Cold, temperature = 21, fan_mode = FanMode_Speed2,
       vanne_vertical_mode = VanneVerticalMode_Top,
       vanne_horizontal_mode = VanneHorizontalMode_NotSet, isee_mode = ISeeMode_ISeeOff,
       area_mode = AreaMode_NotSet, start_time = None, end_time = None,
       powerful = PowerfulMode_PowerfulOff\<rparr>) \<noteq> None \<and>
   build_frame
      \<lparr>climate_mode = ClimateMode_Cold, temperature = 40, fan_mode = FanMode_Speed2,
       vanne_vertical_mode = VanneVerticalMode_Top,
       vanne_horizontal_mode = VanneHorizontalMode_NotSet, isee_mode = ISeeMode_ISeeOff,
       area_mode = AreaMode_NotSet, start_time = None, end_time = None,
       powerful = PowerfulMode_PowerfulOff\<rparr>
      PowerMode_PowerOn \<lparr>hour = 8, minute = 5\<rparr> =
     Inr [35, 203, 38, 1, 0, 32, 24, 15, 6, 74, 48, 0, 0, 0, 16, 0, 0, 236] \<and>
   [35, 203, 38, 1, 0, 32, 24, 15, 6, 74, 48, 0, 0, 0, 16, 0, 0, 236 :: int] ! Index_Temperature
     = max 16 (min 31 40) - 16"
proof -
  let ?a = "\<lparr>climate_mode = ClimateMode_Cold, temperature = 21, fan_mode = FanMode_Speed2,
       vanne_vertical_mode = VanneVerticalMode_Top,
       vanne_horizontal_mode = VanneHorizontalMode_NotSet, isee_mode = ISeeMode_ISeeOff,
       area_mode = AreaMode_NotSet, start_time = None, end_time = None,
       powerful = PowerfulMode_PowerfulOff\<rparr>"
  have c: "climate2 (climate_mode (?a\<lparr>temperature := 40\<rparr>)) = Some 6"
    by (simp add: climate2_def mode_defs)
  have b: "build_frame (?a\<lparr>temperature := 40\<rparr>) PowerMode_PowerOn \<lparr>hour = 8, minute = 5\<rparr> =
     Inr [35, 203, 38, 1, 0, 32, 24, 15, 6, 74, 48, 0, 0, 0, 16, 0, 0, 236]"
    by (subst build_frame_Some [OF c]) (simp add: frame_fields_def
        PowerMode_PowerOn_def ClimateMode_Cold_def ISeeMode_ISeeOff_def
        VanneHorizontalMode_NotSet_def FanMode_Speed2_def VanneVerticalMode_Top_def
        AreaMode_NotSet_def PowerfulMode_PowerfulOff_def time_field_def time_control_def
        TimeControlMode_NoTimeControl_def)
  show ?thesis
    using temperature_byte_clamped [of ?a 40 PowerMode_PowerOn "\<lparr>hour = 8, minute = 5\<rparr>"] c b
    by (simp add: Index_Temperature_def)
qed


text \<open>
  C7: the time control code is \<open>ControlBoth\<close> when both times are set, \<open>ControlEnd\<close>
  when only the end time is, \<open>ControlStart\<close> when only the start time is, and
  \<open>NoTimeControl\<close> when neither is. For every pair of optional times exactly one of
  the four codes is the one chosen, and the frame stores it, combined with the area
  code, at \<open>Index.TimeControlAndArea\<close>.
\<close>

theorem time_control_classification:
  "time_control (Some e) (Some b) = TimeControlMode_ControlBoth \<and>
   time_control (Some e) None = TimeControlMode_ControlEnd \<and>
   time_control None (Some b) = TimeControlMode_ControlStart \<and>
   time_control None None = TimeControlMode_NoTimeControl \<and>
   length (filter (\<lambda>c. time_control end_t start_t = c)
             [TimeControlMode_NoTimeControl, TimeControlMode_ControlStart,
              TimeControlMode_ControlEnd, TimeControlMode_ControlBoth]) = 1 \<and>
   (\<forall>frame. build_frame a power_mode now = Inr frame \<longrightarrow>
      frame ! Index_TimeControlAndArea =
        time_control (end_time a) (start_time a) OR area_mode a)"
proof -
  have frame: "\<forall>frame. build_frame a power_mode now = Inr frame \<longrightarrow>
      frame ! Index_TimeControlAndArea =
        time_control (end_time a) (start_time a) OR area_mode a"
  proof (cases "climate2 (climate_mode a)")
    case None
    then show ?thesis by (simp add: build_frame_None)
  next
    case (Some c2)
    from build_frame_Some [OF this, of power_mode now] show ?thesis
      by (simp add: Index_TimeControlAndArea_def nth_frame_fields) (simp add: frame_fields_def)
  qed
  have one: "length (filter (\<lambda>c. time_control end_t start_t = c)
             [TimeControlMode_NoTimeControl, TimeControlMode_ControlStart,
              TimeControlMode_ControlEnd, TimeControlMode_ControlBoth]) = 1"
    by (simp add: time_control_def TimeControlMode_NoTimeControl_def
        TimeControlMode_ControlStart_def TimeControlMode_ControlEnd_def
        TimeControlMode_ControlBoth_def)
  show ?thesis
    using frame one by (simp add: time_control_def)
qed

theorem time_control_classification_witness:
  "build_frame (power_off_args\<lparr>start_time := Some \<lparr>hour = 7, minute = 30\<rparr>,
                               area_mode := AreaMode_Full\<rparr>)
     PowerMode_PowerOn \<lparr>hour = 13, minute = 45\<rparr> =
     Inr [35, 203, 38, 1, 0, 32, 32, 5, 192, 192, 82, 0, 45, 133, 16, 0, 0, 238] \<and>
   [35, 203, 38, 1, 0, 32, 32, 5, 192, 192, 82, 0, 45, 133, 16, 0, 0, 238 :: int]
     ! Index_TimeControlAndArea = TimeControlMode_ControlStart OR AreaMode_Full"
proof -
  let ?a = "power_off_args\<lparr>start_time := Some \<lparr>hour = 7, minute = 30\<rparr>,
                           area_mode := AreaMode_Full\<rparr>"
  have c: "climate2 (climate_mode ?a) = Some 0"
    by (simp add: climate2_def power_off_args_def mode_defs)
  have b: "build_frame ?a PowerMode_PowerOn \<lparr>hour = 13, minute = 45\<rparr> =
     Inr [35, 203, 38, 1, 0, 32, 32, 5, 192, 192, 82, 0, 45, 133, 16, 0, 0, 238]"
    by (subst build_frame_Some [OF c]) (simp add: frame_fields_def power_off_args_def
        PowerMode_PowerOn_def ClimateMode_Auto_def ISeeMode_ISeeOff_def
        VanneHorizontalMode_Swing_def FanMode_Auto_def VanneVerticalMode_Auto_def
        AreaMode_Full_def PowerfulMode_PowerfulOff_def time_field_def time_control_def
        TimeControlMode_ControlStart_def)
  show ?thesis
    using time_control_classification [of _ _ _ _ ?a PowerMode_PowerOn "\<lparr>hour = 13, minute = 45\<rparr>"] b
    by (simp add: power_off_args_def time_control_def)
qed

text \<open>
  C9: \<open>climate2\<close> returns 0 for \<open>Hot\<close>, 6 for \<open>Cold\<close>, 2 for \<open>Dry\<close>, 0 for \<open>Auto\<close>
  and \<open>None\<close> for every other argument. A frame is built exactly when the climate
  mode is one of these four; for any other mode the bitwise or with \<open>None\<close> raises
  \<open>TypeError\<close> and no frame is built.
\<close>

theorem climate2_partial:
  "climate2 ClimateMode_Hot = Some 0 \<and> climate2 ClimateMode_Cold = Some 6 \<and>
   climate2 ClimateMode_Dry = Some 2 \<and> climate2 ClimateMode_Auto = Some 0 \<and>
   (m \<notin> {ClimateMode_Hot, ClimateMode_Cold, ClimateMode_Dry, ClimateMode_Auto} \<longrightarrow>
      climate2 m = None) \<and>
   ((\<exists>frame. build_frame a power_mode now = Inr frame) \<longleftrightarrow>
      climate_mode a \<in> {ClimateMode_Hot, ClimateMode_Cold, ClimateMode_Dry, ClimateMode_Auto}) \<and>
   (climate_mode a \<notin> {ClimateMode_Hot, ClimateMode_Cold, ClimateMode_Dry, ClimateMode_Auto} \<longrightarrow>
      build_frame a power_mode now = Inl TypeError)"
proof -
  have known: "climate2 ClimateMode_Hot = Some 0 \<and> climate2 ClimateMode_Cold = Some 6 \<and>
                climate2 ClimateMode_Dry = Some 2 \<and> climate2 ClimateMode_Auto = Some 0"
    by (simp add: climate2_def mode_defs)
  have other: "m \<notin> {ClimateMode_Hot, ClimateMode_Cold, ClimateMode_Dry, ClimateMode_Auto} \<longrightarrow>
                 climate2 m = None"
    by (simp add: climate2_def)
  have built: "(\<exists>frame. build_frame a power_mode now = Inr frame) \<longleftrightarrow>
      climate_mode a \<in> {ClimateMode_Hot, ClimateMode_Cold, ClimateMode_Dry, ClimateMode_Auto}"
  proof (cases "climate2 (climate_mode a)")
    case None
    then have "climate_mode a \<notin>
                 {ClimateMode_Hot, ClimateMode_Cold, ClimateMode_Dry, ClimateMode_Auto}"
      using climate2_Some_iff [of "climate_mode a"] by simp
    with None show ?thesis
      by (simp add: build_frame_None)
  next
    case (Some c2)
    then have "climate_mode a \<in>
                 {ClimateMode_Hot, ClimateMode_Cold, ClimateMode_Dry, ClimateMode_Auto}"
      using climate2_Some_iff [of "climate_mode a"] by blast
    with build_frame_Some [OF Some, of power_mode now] show ?thesis
      by simp
  qed
  have failed: "climate_mode a \<notin>
                  {ClimateMode_Hot, ClimateMode_Cold, ClimateMode_Dry, ClimateMode_Auto} \<longrightarrow>
                build_frame a power_mode now = Inl TypeError"
    using climate2_Some_iff [of "climate_mode a"] build_frame_None [of a power_mode now]
    by (cases "climate2 (climate_mode a)") auto
  from known other built failed show ?thesis
    by (simp only: simp_thms)
qed

theorem climate2_partial_witness:
  "(0::int) \<notin> {ClimateMode_Hot, ClimateMode_Cold, ClimateMode_Dry, ClimateMode_Auto} \<and>
   climate2 0 = None \<and>
   climate_mode (power_off_args\<lparr>climate_mode := 0\<rparr>)
     \<notin> {ClimateMode_Hot, ClimateMode_Cold, ClimateMode_Dry, ClimateMode_Auto} \<and>
   build_frame (power_off_args\<lparr>climate_mode := 0\<rparr>) PowerMode_PowerOn
     \<lparr>hour = 13, minute = 45\<rparr> = Inl TypeError"
  using climate2_partial [of 0 "power_off_args\<lparr>climate_mode := 0\<rparr>" PowerMode_PowerOn
      "\<lparr>hour = 13, minute = 45\<rparr>"]
  by (simp add: ClimateMode_Hot_def ClimateMode_Cold_def ClimateMode_Dry_def
      ClimateMode_Auto_def)

text \<open>
  C10: in every produced frame the entries that are never assigned keep the constants
  of the template: entries 0 to 4 are 0x23, 0xCB, 0x26, 0x01, 0x00, entry 14 is 0x10 and
  entry 16 is 0x00, whatever the arguments, the power mode and the clock are.
\<close>

theorem untouched_bytes_keep_template:
  "build_frame a power_mode now = Inr frame \<Longrightarrow>
   frame ! Index_Header0 = 0x23 \<and> frame ! Index_Header1 = 0xCB \<and>
   frame ! Index_Header2 = 0x26 \<and> frame ! Index_Header3 = 0x01 \<and>
   frame ! Index_Header4 = 0x00 \<and> frame ! Index_Unused14 = 0x10 \<and>
   frame ! Index_Unused16 = 0x00 \<and>
   list_all (\<lambda>i. frame ! i = frame_template ! i)
     [Index_Header0, Index_Header1, Index_Header2, Index_Header3, Index_Header4,
      Index_Unused14, Index_Unused16]"
proof (cases "climate2 (climate_mode a)")
  case None
  assume "build_frame a power_mode now = Inr frame"
  with None show ?thesis
    by (simp add: build_frame_None)
next
  case (Some c2)
  assume "build_frame a power_mode now = Inr frame"
  with build_frame_Some [OF Some, of power_mode now]
  have "frame = frame_fields a power_mode now c2 @
                  [sum_list (frame_fields a power_mode now c2) mod 256]"
    by simp
  then show ?thesis
    by (simp add: nth_frame_fields Index_Header0_def Index_Header1_def Index_Header2_def
        Index_Header3_def Index_Header4_def Index_Unused14_def Index_Unused16_def
        frame_template_def)
       (simp add: frame_fields_def)
qed

theorem untouched_bytes_keep_template_witness:
  "build_frame power_off_args PowerMode_PowerOff \<lparr>hour = 13, minute = 45\<rparr> =
     Inr [35, 203, 38, 1, 0, 0, 32, 5, 192, 192, 82, 0, 0, 0, 16, 0, 0, 28] \<and>
   list_all (\<lambda>i. [35, 203, 38, 1, 0, 0, 32, 5, 192, 192, 82, 0, 0, 0, 16, 0, 0, 28 :: int] ! i
                  = frame_template ! i)
     [Index_Header0, Index_Header1, Index_Header2, Index_Header3, Index_Header4,
      Index_Unused14, Index_Unused16]"
proof -
  have c: "climate2 (climate_mode power_off_args) = Some 0"
    by (simp add: climate2_def power_off_args_def mode_defs)
  have b: "build_frame power_off_args PowerMode_PowerOff \<lparr>hour = 13, minute = 45\<rparr> =
     Inr [35, 203, 38, 1, 0, 0, 32, 5, 192, 192, 82, 0, 0, 0, 16, 0, 0, 28]"
    by (subst build_frame_Some [OF c]) (simp add: frame_fields_def power_off_args_def
        PowerMode_PowerOff_def ClimateMode_Auto_def ISeeMode_ISeeOff_def
        VanneHorizontalMode_Swing_def FanMode_Auto_def VanneVerticalMode_Auto_def
        AreaMode_NotSet_def PowerfulMode_PowerfulOff_def time_field_def time_control_def
        TimeControlMode_NoTimeControl_def)
  show ?thesis
    using untouched_bytes_keep_template [OF b] b by simp
qed

section \<open>The order of the bits\<close>





section \<open>The leading burst\<close>

lemma process_code_codes:
  "\<exists>rest. raw_codes (wave_generator (snd (process_code s ircode))) =
            raw_codes (wave_generator s) @ leading_burst s @ rest"
proof (cases "list_all valid_symbol ircode")
  case True
  then show ?thesis
    by (simp add: process_code_valid full_waveform_def)
next
  case False
  then show ?thesis
    by (simp add: process_code_invalid)
qed

text \<open>
  C3, as stated, fails: with a leading pulse of 9000 and a leading gap of 0, processing
  the code "1" appends the low entry \<open>-0 = 0\<close> after the leading pulse; the waveform
  is not the one without that entry.
\<close>

theorem leading_gap_zero_counterexample:
  "raw_codes (wave_generator (snd (process_code
      (NEC_init (NEC_defaults\<lparr>cfg_leading_gap_duration := 0\<rparr>)) ''1''))) =
     [9000, 0, 562, - 1686, 562] \<and>
   raw_codes (wave_generator (snd (process_code
      (NEC_init (NEC_defaults\<lparr>cfg_leading_gap_duration := 0\<rparr>)) ''1''))) \<noteq>
     [9000, 562, - 1686, 562]"
  by (simp add: process_code_def send_agc_def send_trailing_pulse_def NEC_one_def
      wg_one_def wg_zero_def NEC_init_def NEC_defaults_def WaveGenerator_init_def Let_def)

text \<open>
  C3, amended: whenever the leading pulse or the leading gap is positive,
  \<open>process_code\<close> appends both entries of the leading burst, the pulse and then the
  negated gap, whatever the gap is and whatever the code is; a leading gap of 0 gives
  a low entry 0. In that case, for a code of "0" and "1" only, the entries appended are
  exactly these two, a pulse and a negated gap for each symbol, and the trailing burst, which
  is empty unless the trailing pulse is positive and has its low entry only when the
  trailing gap is positive: the trailing burst alone leaves its low entry out for a
  gap of 0.
\<close>

theorem leading_burst_both_entries:
  "leading_pulse_duration s > 0 \<or> leading_gap_duration s > 0 \<Longrightarrow>
   (\<exists>rest. raw_codes (wave_generator (snd (process_code s ircode))) =
            raw_codes (wave_generator s) @
            [leading_pulse_duration s, - leading_gap_duration s] @ rest) \<and>
   (list_all valid_symbol ircode \<longrightarrow>
      raw_codes (wave_generator (snd (process_code s ircode))) =
        raw_codes (wave_generator s) @
        [leading_pulse_duration s, - leading_gap_duration s] @
        concat (map (\<lambda>i. if i = CHR ''0''
                          then [zero_pulse_duration s, - zero_gap_duration s]
                          else [one_pulse_duration s, - one_gap_duration s]) ircode) @
        (if trailing_pulse_duration s > 0
         then (if trailing_gap_duration s > 0
               then [trailing_pulse_duration s, - trailing_gap_duration s]
               else [trailing_pulse_duration s])
         else []))"
proof -
  assume lead: "leading_pulse_duration s > 0 \<or> leading_gap_duration s > 0"
  have first: "\<exists>rest. raw_codes (wave_generator (snd (process_code s ircode))) =
            raw_codes (wave_generator s) @
            [leading_pulse_duration s, - leading_gap_duration s] @ rest"
    using process_code_codes [of s ircode] lead by (simp add: leading_burst_def)
  have symbols: "symbol_wave s = (\<lambda>i. if i = CHR ''0''
                          then [zero_pulse_duration s, - zero_gap_duration s]
                          else [one_pulse_duration s, - one_gap_duration s])"
    by (rule ext) (simp add: symbol_wave_def)
  have whole: "list_all valid_symbol ircode \<longrightarrow>
      raw_codes (wave_generator (snd (process_code s ircode))) =
        raw_codes (wave_generator s) @
        [leading_pulse_duration s, - leading_gap_duration s] @
        concat (map (symbol_wave s) ircode) @ trailing_burst s"
    using lead by (simp add: process_code_valid full_waveform_def leading_burst_def)
  from first whole show ?thesis
    by (simp only: symbols trailing_burst_def simp_thms)
qed

theorem leading_burst_both_entries_witness:
  "(leading_pulse_duration (NEC_init (NEC_defaults\<lparr>cfg_leading_gap_duration := 0\<rparr>)) > 0 \<or>
    leading_gap_duration (NEC_init (NEC_defaults\<lparr>cfg_leading_gap_duration := 0\<rparr>)) > 0) \<and>
   list_all valid_symbol ''1'' \<and>
   raw_codes (wave_generator (snd (process_code
      (NEC_init (NEC_defaults\<lparr>cfg_leading_gap_duration := 0\<rparr>)) ''1''))) =
     [] @ [9000, - 0] @ [562, - 1686] @ [562]"
proof -
  have pos: "leading_pulse_duration (NEC_init (NEC_defaults\<lparr>cfg_leading_gap_duration := 0\<rparr>)) > 0
             \<or> leading_gap_duration (NEC_init (NEC_defaults\<lparr>cfg_leading_gap_duration := 0\<rparr>)) > 0"
    by (simp add: NEC_init_def NEC_defaults_def)
  have ok: "list_all valid_symbol ''1''"
    by (simp add: valid_symbol_def)
  from leading_burst_both_entries [OF pos, of "''1''"] pos ok show ?thesis
    by (simp add: NEC_init_def NEC_defaults_def WaveGenerator_init_def)
qed

section \<open>Symbols other than "0" and "1"\<close>

lemma send_code_invalid_state:
  "\<not> list_all valid_symbol ircode \<Longrightarrow>
   send_code s ircode (Suc nb) =
     (Inl 1,
      s\<lparr>protocol := emit (protocol s)
          (leading_burst (protocol s) @
           concat (map (symbol_wave (protocol s)) (takeWhile valid_symbol ircode)))\<rparr>)"
  by (simp add: process_code_invalid)

text \<open>
  C4, as stated, fails. Processing the code "01x1" under the default timing returns the
  status 1 and leaves a truncated waveform in the wave generator: the leading burst and
  the entries of the two symbols before "x". Sending that code zero times returns the
  empty list and no error. After a failed \<open>send_code\<close>, the next \<open>send_code\<close> on the
  same sender returns the truncated entries in front of the new waveform.
\<close>

theorem truncated_waveform_counterexample:
  "fst (process_code (NEC_init NEC_defaults) ''01x1'') = 1 \<and>
   raw_codes (wave_generator (snd (process_code (NEC_init NEC_defaults) ''01x1''))) =
     [9000, - 4500, 562, - 562, 562, - 1686] \<and>
   fst (send_code (IrSender_init NEC_defaults) ''01x1'' 0) = Inr [] \<and>
   fst (send_code (IrSender_init NEC_defaults) ''01x1'' 1) = Inl 1 \<and>
   fst (send_code (snd (send_code (IrSender_init NEC_defaults) ''01x1'' 1)) ''1'' 1) =
     Inr [9000, - 4500, 562, - 562, 562, - 1686, 9000, - 4500, 562, - 1686, 562]"
proof -
  have bad: "\<not> list_all valid_symbol ''01x1''"
    by (simp add: valid_symbol_def)
  have ok: "list_all valid_symbol ''1''"
    by (simp add: valid_symbol_def)
  have cut: "takeWhile valid_symbol ''01x1'' = ''01''"
    by (simp add: valid_symbol_def)
  have part: "leading_burst (NEC_init NEC_defaults) @
                concat (map (symbol_wave (NEC_init NEC_defaults)) ''01'') =
                [9000, - 4500, 562, - 562, 562, - 1686]"
    by (simp add: leading_burst_def symbol_wave_def NEC_init_def NEC_defaults_def)
  have wave: "full_waveform (NEC_init NEC_defaults) ''1'' = [9000, - 4500, 562, - 1686, 562]"
    by (simp add: full_waveform_def leading_burst_def trailing_burst_def symbol_wave_def
        NEC_init_def NEC_defaults_def)
  have prot: "protocol (IrSender_init NEC_defaults) = NEC_init NEC_defaults"
    by (simp add: IrSender_init_def)
  have codes: "raw_codes (wave_generator (NEC_init NEC_defaults)) = []"
    by (simp add: NEC_init_def WaveGenerator_init_def)
  have p: "process_code (NEC_init NEC_defaults) ''01x1'' =
             (1, emit (NEC_init NEC_defaults) [9000, - 4500, 562, - 562, 562, - 1686])"
    by (simp only: process_code_invalid [OF bad] cut part)
  have none: "fst (send_code (IrSender_init NEC_defaults) ''01x1'' 0) = Inr []"
    by (simp add: prot codes)
  have once: "send_code (IrSender_init NEC_defaults) ''01x1'' (Suc 0) =
                (Inl 1, (IrSender_init NEC_defaults)
                   \<lparr>protocol := emit (NEC_init NEC_defaults)
                                  [9000, - 4500, 562, - 562, 562, - 1686]\<rparr>)"
    by (simp only: send_code_invalid_state [OF bad] prot cut part)
  have again: "fst (send_code (snd (send_code (IrSender_init NEC_defaults) ''01x1'' (Suc 0)))
                      ''1'' (Suc 0)) =
                 Inr [9000, - 4500, 562, - 562, 562, - 1686, 9000, - 4500, 562, - 1686, 562]"
    by (simp add: once send_code_valid [OF ok] codes wave del: send_code.simps)
  from p none once again show ?thesis
    by (simp add: codes del: send_code.simps)
qed

text \<open>
  C4, amended: the error signal is a returned integer. For a code with a symbol other
  than "0" and "1", \<open>process_code\<close> returns the status 1 after appending to the wave
  generator the leading burst and the entries of the symbols before the first such
  symbol, and no trailing burst; \<open>send_code\<close> with \<open>nb\<close> at least 1 returns the integer
  1 in place of the list of durations and leaves those entries in the sender. For a
  code of "0" and "1" only, \<open>process_code\<close> returns 0 after appending the full
  waveform, and \<open>send_code\<close> returns the list held by the wave generator with \<open>nb\<close>
  full waveforms appended. With \<open>nb = 0\<close> no code is processed: \<open>send_code\<close> returns
  the list held by the wave generator, whatever the code is.
\<close>

theorem invalid_symbol_status_and_entries:
  "(\<not> list_all valid_symbol ircode \<longrightarrow>
      process_code p ircode =
        (1, emit p (leading_burst p @
                    concat (map (symbol_wave p) (takeWhile valid_symbol ircode)))) \<and>
      (0 < nb \<longrightarrow>
         send_code s ircode nb =
           (Inl 1,
            s\<lparr>protocol := emit (protocol s)
                (leading_burst (protocol s) @
                 concat (map (symbol_wave (protocol s)) (takeWhile valid_symbol ircode)))\<rparr>))) \<and>
   (list_all valid_symbol ircode \<longrightarrow>
      process_code p ircode = (0, emit p (full_waveform p ircode)) \<and>
      send_code s ircode nb =
        (Inr (raw_codes (wave_generator (protocol s)) @
              concat (replicate nb (full_waveform (protocol s) ircode))),
         s\<lparr>protocol := emit (protocol s)
             (concat (replicate nb (full_waveform (protocol s) ircode)))\<rparr>)) \<and>
   send_code s ircode 0 = (Inr (raw_codes (wave_generator (protocol s))), s)"
proof (cases "list_all valid_symbol ircode")
  case True
  then show ?thesis
    by (simp add: process_code_valid send_code_valid)
next
  case False
  have "0 < nb \<longrightarrow>
         send_code s ircode nb =
           (Inl 1,
            s\<lparr>protocol := emit (protocol s)
                (leading_burst (protocol s) @
                 concat (map (symbol_wave (protocol s)) (takeWhile valid_symbol ircode)))\<rparr>)"
    using send_code_invalid_state [OF False, of s] by (cases nb) simp_all
  then show ?thesis
    using False by (simp add: process_code_invalid)
qed

theorem invalid_symbol_status_and_entries_witness:
  "\<not> list_all valid_symbol ''01x1'' \<and>
   fst (process_code (NEC_init NEC_defaults) ''01x1'') = 1 \<and>
   raw_codes (wave_generator (snd (process_code (NEC_init NEC_defaults) ''01x1''))) =
     [9000, - 4500, 562, - 562, 562, - 1686] \<and>
   (0::nat) < 2 \<and>
   fst (send_code (IrSender_init NEC_defaults) ''01x1'' 2) = Inl 1 \<and>
   raw_codes (wave_generator (protocol
      (snd (send_code (IrSender_init NEC_defaults) ''01x1'' 2)))) =
     [9000, - 4500, 562, - 562, 562, - 1686] \<and>
   list_all valid_symbol ''01'' \<and>
   fst (send_code (IrSender_init NEC_defaults) ''01'' 1) =
     Inr [9000, - 4500, 562, - 562, 562, - 1686, 562]"
proof -
  have bad: "\<not> list_all valid_symbol ''01x1''"
    by (simp add: valid_symbol_def)
  have good: "list_all valid_symbol ''01''"
    by (simp add: valid_symbol_def)
  have cut: "takeWhile valid_symbol ''01x1'' = ''01''"
    by (simp add: valid_symbol_def)
  have wave: "full_waveform (NEC_init NEC_defaults) ''01'' =
                [9000, - 4500, 562, - 562, 562, - 1686, 562]"
    by (simp add: full_waveform_def leading_burst_def trailing_burst_def symbol_wave_def
        NEC_init_def NEC_defaults_def)
  have part: "leading_burst (NEC_init NEC_defaults) @
                symbol_wave (NEC_init NEC_defaults) CHR ''0'' @
                symbol_wave (NEC_init NEC_defaults) CHR ''1'' =
                [9000, - 4500, 562, - 562, 562, - 1686]"
    by (simp add: leading_burst_def symbol_wave_def NEC_init_def NEC_defaults_def)
  have prot: "protocol (IrSender_init NEC_defaults) = NEC_init NEC_defaults"
    by (simp add: IrSender_init_def)
  have codes: "raw_codes (wave_generator (NEC_init NEC_defaults)) = []"
    by (simp add: NEC_init_def WaveGenerator_init_def)
  from invalid_symbol_status_and_entries
         [of "''01x1''" "NEC_init NEC_defaults" 2 "IrSender_init NEC_defaults"]
       invalid_symbol_status_and_entries
         [of "''01''" "NEC_init NEC_defaults" 1 "IrSender_init NEC_defaults"]
       bad good
  show ?thesis
    by (simp add: cut prot wave part codes)
qed

section \<open>Repetitions\<close>

lemma length_concat_replicate: "length (concat (replicate n w)) = n * length w"
  by (induction n) simp_all

text \<open>
  C5, as stated, fails for a sender that already holds entries: \<open>send_data\<close> returns
  the whole list of the wave generator. On the sender left by one \<open>send_data\<close> of the
  entry 1 under the mask 3, one repetition returns 14 entries and two repetitions
  return 21, which is not two copies of the 14.
\<close>

theorem reused_sender_counterexample:
  "fst (send_data (snd (send_data (IrSender_init NEC_defaults) [1] 3 True 1)) [1] 3 True 1) =
     Inr [9000, - 4500, 562, - 1686, 562, - 562, 562,
          9000, - 4500, 562, - 1686, 562, - 562, 562] \<and>
   fst (send_data (snd (send_data (IrSender_init NEC_defaults) [1] 3 True 1)) [1] 3 True 2) =
     Inr [9000, - 4500, 562, - 1686, 562, - 562, 562,
          9000, - 4500, 562, - 1686, 562, - 562, 562,
          9000, - 4500, 562, - 1686, 562, - 562, 562] \<and>
   [9000, - 4500, 562, - 1686, 562, - 562, 562,
    9000, - 4500, 562, - 1686, 562, - 562, 562,
    9000, - 4500, 562, - 1686, 562, - 562, 562 :: int] \<noteq>
   concat (replicate 2 [9000, - 4500, 562, - 1686, 562, - 562, 562,
                        9000, - 4500, 562, - 1686, 562, - 562, 562])"
proof -
  have code: "bits_loop 1 3 True 1 [] = ''10''"
    by (simp add: bits_loop.simps)
  have wave: "full_waveform (NEC_init NEC_defaults) ''10'' =
                [9000, - 4500, 562, - 1686, 562, - 562, 562]"
    by (simp add: full_waveform_def leading_burst_def trailing_burst_def symbol_wave_def
        NEC_init_def NEC_defaults_def)
  have prot: "protocol (IrSender_init NEC_defaults) = NEC_init NEC_defaults"
    by (simp add: IrSender_init_def)
  have codes: "raw_codes (wave_generator (NEC_init NEC_defaults)) = []"
    by (simp add: NEC_init_def WaveGenerator_init_def)
  have two: "replicate 2 x = [x, x]" for x :: "int list"
    by (simp add: numeral_2_eq_2)
  show ?thesis
    by (simp add: send_data_result Let_def code prot wave codes two)
qed

text \<open>
  C5, amended: for every data list, mask, inversion flag and repeat count \<open>n\<close>,
  \<open>send_data\<close> on a newly constructed sender returns a list of durations: with one
  repetition a list \<open>w\<close>, and with \<open>n\<close> repetitions the concatenation of \<open>n\<close> copies
  of \<open>w\<close>, of length \<open>n\<close> times the length of \<open>w\<close>.
\<close>

theorem send_data_repetition:
  "\<exists>w. fst (send_data (IrSender_init c) data max_mask must_invert 1) = Inr w \<and>
       fst (send_data (IrSender_init c) data max_mask must_invert n) =
         Inr (concat (replicate n w)) \<and>
       length (concat (replicate n w)) = n * length w"
  by (simp add: send_data_result fresh_sender_codes Let_def length_concat_replicate)

section \<open>Invocations do not share state\<close>

text \<open>
  C8: the result of \<open>send_command\<close> is determined by its arguments and the clock
  reading alone. Whatever objects earlier invocations have left in the heap, two
  invocations with the same arguments and the same clock reading return the same
  result; so does the second of two invocations run one after the other. The same
  holds for \<open>power_off\<close>.
\<close>

theorem send_command_deterministic:
  "fst (send_command a now h1) = fst (send_command a now h2) \<and>
   fst (send_command a now (snd (send_command a now h1))) = fst (send_command a now h1) \<and>
   fst (power_off now h1) = fst (power_off now h2)"
  by (simp add: send_command_def power_off_def Mitsubishi__send_command_result)

end
